theory Spec2Isabelle
  imports Main "HOL-Library.Sublist"
begin

section \<open>NoIFGo: the rewrite engine of \<open>main.go\<close>\<close>

text \<open>
  A shallow embedding of the functions of \<open>main.go\<close>. Go's \<open>[]byte\<close> and
  \<open>string\<close> are both byte sequences and are modelled by \<open>string\<close> (a list of
  8-bit characters); Go's \<open>int\<close> is modelled by \<open>int\<close> (no value in this
  program comes near the 64-bit range, except inside \<open>strconv.Atoi\<close>, whose range
  check is written out). The file system is a map from paths to contents.
  Every error return and every run-time panic of the source is a value of type
  \<open>error\<close>, returned on the left of a sum.
\<close>

subsection \<open>Errors and the file system\<close>

datatype error =
    IOError string                 \<comment> \<open>a failed read, open, copy, remove or rename of the path\<close>
  | ErrTagSplit                    \<comment> \<open>"could not split line containing noifgo tag in two parts"\<close>
  | ErrTagNoOpenBrace              \<comment> \<open>"'noifgo:' should be followed by a '{'"\<close>
  | ErrTagNoClosingBrace           \<comment> \<open>"could not find closing '}'"\<close>
  | ErrTagNoComma                  \<comment> \<open>"could not find key value pair, missing ','"\<close>
  | ErrTagBadKind                  \<comment> \<open>"value in key value pair must either be 'p' or 'v'"\<close>
  | ErrTagNoInterface string       \<comment> \<open>"could not find interface <name>"\<close>
  | ErrTooManyImpls                \<comment> \<open>"Too many interface implementations"\<close>
  | ErrPosition string int int     \<comment> \<open>"could not get position from <file>:<row>.<col> reference"\<close>
  | ErrTool string                 \<comment> \<open>an external tool (guru, gorename, goimports) failed\<close>
  | PanicIndexOutOfRange           \<comment> \<open>run-time panic: index out of range\<close>
  | PanicSliceBounds               \<comment> \<open>run-time panic: slice bounds out of range\<close>
  | PanicMakeLen                   \<comment> \<open>run-time panic: makeslice: len out of range\<close>


type_synonym filesys = "string \<rightharpoonup> string"

definition NL :: char where
  "NL = CHR 0x0A"

definition CR :: char where
  "CR = CHR 0x0D"

text \<open>\<open>ioutil.ReadFile\<close>: the whole content, or an error when the path cannot be read.\<close>

definition ReadFile :: "filesys \<Rightarrow> string \<Rightarrow> error + string" where
  "ReadFile fs path = (case fs path of None \<Rightarrow> Inl (IOError path) | Some b \<Rightarrow> Inr b)"

subsection \<open>\<open>bufio.Scanner\<close> with \<open>bufio.ScanLines\<close>\<close>

text \<open>
  \<open>bufio.ScanLines\<close> on the unread input: the token is the text up to the first
  newline, without a trailing carriage return; the advance counts the newline too. A last
  line without a newline is a token as well. The scanner is modelled on the whole input,
  as the list of the (advance, token) pairs that successive calls of \<open>Scan\<close>
  deliver: every line is taken to fit the scanner's token buffer (64 KiB), and a token is
  a value of its own (that a later \<open>Scan\<close> may move the bytes under a slice kept
  from an earlier one is not modelled).
\<close>

definition dropCR :: "string \<Rightarrow> string" where
  "dropCR data = (if data \<noteq> [] \<and> last data = CR then butlast data else data)"

definition ScanLines :: "string \<Rightarrow> nat \<times> string" where
  "ScanLines data =
     (let line = takeWhile (\<lambda>c. c \<noteq> NL) data
      in if length line < length data
         then (length line + 1, dropCR line)
         else (length data, dropCR data))"

function scanner_tokens :: "string \<Rightarrow> (nat \<times> string) list" where
  "scanner_tokens data =
     (if data = [] then []
      else ScanLines data # scanner_tokens (drop (fst (ScanLines data)) data))"
  by pat_completeness auto
termination
  by (relation "measure length") (auto simp: ScanLines_def Let_def)

declare scanner_tokens.simps [simp del]

text \<open>The tokens alone: what a loop over \<open>scanner.Scan()\<close> reads with \<open>Bytes()\<close>.\<close>

definition scanner_lines :: "string \<Rightarrow> string list" where
  "scanner_lines data = map snd (scanner_tokens data)"

subsection \<open>Position translator: \<open>toPos\<close>\<close>

text \<open>
  The split function of \<open>toPos\<close> adds every advance to \<open>pos\<close> and remembers the
  last one. The loop counts rows from 1; at the wanted row it takes the last advance back,
  adds the column and stops. When no row matches, \<open>pos\<close> is the sum of all advances.
\<close>

fun toPos_loop :: "(nat \<times> string) list \<Rightarrow> int \<Rightarrow> int \<Rightarrow> int \<Rightarrow> int \<Rightarrow> int" where
  "toPos_loop [] row col curRow pos = pos"
| "toPos_loop ((advance, token) # rest) row col curRow pos =
     (if curRow \<noteq> row
      then toPos_loop rest row col (curRow + 1) (pos + int advance)
      else pos + int advance - int advance + col)"

definition toPos :: "filesys \<Rightarrow> string \<Rightarrow> int \<Rightarrow> int \<Rightarrow> error + int" where
  "toPos fs filepath row col =
     (case ReadFile fs filepath of
        Inl err \<Rightarrow> Inl err
      | Inr b \<Rightarrow> Inr (toPos_loop (scanner_tokens b) row col 1 0 - 1))"


subsection \<open>Byte-slice helpers of the Go library\<close>

text \<open>Go's slice expression \<open>s[lo:hi]\<close> and index assignment, with their bounds checks.\<close>

definition go_slice :: "'a list \<Rightarrow> int \<Rightarrow> int \<Rightarrow> error + 'a list" where
  "go_slice s lo hi =
     (if 0 \<le> lo \<and> lo \<le> hi \<and> hi \<le> int (length s)
      then Inr (take (nat (hi - lo)) (drop (nat lo) s))
      else Inl PanicSliceBounds)"

definition go_slice_from :: "'a list \<Rightarrow> int \<Rightarrow> error + 'a list" where
  "go_slice_from s lo = go_slice s lo (int (length s))"

definition go_set :: "'a list \<Rightarrow> int \<Rightarrow> 'a \<Rightarrow> error + 'a list" where
  "go_set s i v =
     (if 0 \<le> i \<and> i < int (length s) then Inr (s[nat i := v]) else Inl PanicIndexOutOfRange)"

text \<open>\<open>bytes.Contains\<close>: the subslice occurs somewhere.\<close>

fun bytes_Contains :: "string \<Rightarrow> string \<Rightarrow> bool" where
  "bytes_Contains [] subslice = (subslice = [])"
| "bytes_Contains (c # cs) subslice = (prefix subslice (c # cs) \<or> bytes_Contains cs subslice)"

text \<open>
  \<open>bytes.Split\<close> (and \<open>strings.Split\<close>) with a non-empty separator: cut at
  every occurrence found from the left, occurrences not overlapping; the result always has
  at least one element. (With an empty separator Go cuts after every character; the
  program never does that.)
\<close>

function split_go :: "string \<Rightarrow> string \<Rightarrow> string \<Rightarrow> string list" where
  "split_go sep cur s =
     (if s = [] then [cur]
      else if sep \<noteq> [] \<and> prefix sep s then cur # split_go sep [] (drop (length sep) s)
      else split_go sep (cur @ [hd s]) (tl s))"
  by pat_completeness auto
termination
  by (relation "measure (\<lambda>(sep, cur, s). length s)") auto

declare split_go.simps [simp del]

definition bytes_Split :: "string \<Rightarrow> string \<Rightarrow> string list" where
  "bytes_Split s sep = (if sep = [] then map (\<lambda>c. [c]) s else split_go sep [] s)"

text \<open>\<open>bytes.LastIndex\<close>: the start of the last occurrence, or -1.\<close>

definition bytes_LastIndex :: "string \<Rightarrow> string \<Rightarrow> int" where
  "bytes_LastIndex s sep =
     (case filter (\<lambda>i. prefix sep (drop i s)) (rev [0 ..< length s + 1]) of
        [] \<Rightarrow> - 1
      | i # _ \<Rightarrow> int i)"

text \<open>
  \<open>bytes.TrimSpace\<close>: strips leading and trailing white space as Unicode defines it,
  here as the UTF-8 encodings of the characters of \<open>unicode.IsSpace\<close>.
\<close>

definition unicode_spaces :: "string list" where
  "unicode_spaces =
     [[CHR 0x09], [CHR 0x0A], [CHR 0x0B], [CHR 0x0C], [CHR 0x0D], [CHR 0x20],
      [CHR 0xC2, CHR 0x85], [CHR 0xC2, CHR 0xA0], [CHR 0xE1, CHR 0x9A, CHR 0x80],
      [CHR 0xE2, CHR 0x80, CHR 0x80], [CHR 0xE2, CHR 0x80, CHR 0x81],
      [CHR 0xE2, CHR 0x80, CHR 0x82], [CHR 0xE2, CHR 0x80, CHR 0x83],
      [CHR 0xE2, CHR 0x80, CHR 0x84], [CHR 0xE2, CHR 0x80, CHR 0x85],
      [CHR 0xE2, CHR 0x80, CHR 0x86], [CHR 0xE2, CHR 0x80, CHR 0x87],
      [CHR 0xE2, CHR 0x80, CHR 0x88], [CHR 0xE2, CHR 0x80, CHR 0x89],
      [CHR 0xE2, CHR 0x80, CHR 0x8A], [CHR 0xE2, CHR 0x80, CHR 0xA8],
      [CHR 0xE2, CHR 0x80, CHR 0xA9], [CHR 0xE2, CHR 0x80, CHR 0xAF],
      [CHR 0xE2, CHR 0x81, CHR 0x9F], [CHR 0xE3, CHR 0x80, CHR 0x80]]"

function trim_left :: "string \<Rightarrow> string" where
  "trim_left s =
     (case filter (\<lambda>w. prefix w s) unicode_spaces of
        [] \<Rightarrow> s
      | w # _ \<Rightarrow> if w = [] then s else trim_left (drop (length w) s))"
  by pat_completeness auto
termination
proof (relation "measure length")
  show "wf (measure length)" by simp
next
  fix s :: string and x21 x22
  assume a: "filter (\<lambda>w. prefix w s) unicode_spaces = x21 # x22" and b: "x21 \<noteq> []"
  from a have "x21 \<in> set (filter (\<lambda>w. prefix w s) unicode_spaces)" by simp
  then have "prefix x21 s" by simp
  with b have "s \<noteq> []" by auto
  with b show "(drop (length x21) s, s) \<in> measure length" by simp
qed

declare trim_left.simps [simp del]

definition bytes_TrimSpace :: "string \<Rightarrow> string" where
  "bytes_TrimSpace s = rev (trim_left (rev (trim_left s)))"

subsection \<open>Tag grammar parser: \<open>shouldConvertTo\<close>\<close>

text \<open>
  The first loop of \<open>shouldConvertTo\<close>: \<open>prevLine\<close> is the line read just before
  the scanner reaches \<open>row\<close> (the last line of the file when \<open>row\<close> is never
  reached, and empty when \<open>row\<close> is 1).
\<close>

fun prevLine_loop :: "string list \<Rightarrow> int \<Rightarrow> int \<Rightarrow> string \<Rightarrow> string" where
  "prevLine_loop [] row curRow prevLine = prevLine"
| "prevLine_loop (token # rest) row curRow prevLine =
     (if curRow \<noteq> row then prevLine_loop rest row (curRow + 1) token else prevLine)"

text \<open>The loop over the \<open>name,kind\<close> pairs between the braces.\<close>

fun keyValue_loop :: "string list \<Rightarrow> string \<Rightarrow> error + string" where
  "keyValue_loop [] ifName = Inl (ErrTagNoInterface ifName)"
| "keyValue_loop (kv # rest) ifName =
     (let keyValuePair = bytes_Split (bytes_TrimSpace kv) '',''
      in if length keyValuePair \<noteq> 2 then Inl ErrTagNoComma
         else if keyValuePair ! 0 = ifName
              then (if keyValuePair ! 1 = ''p'' then Inr ''p''
                    else if keyValuePair ! 1 = ''v'' then Inr ''v''
                    else Inl ErrTagBadKind)
              else keyValue_loop rest ifName)"

text \<open>
  The parse of \<open>prevLine\<close>. The source reads \<open>prevLineParts[1][0]\<close> without a
  length check: on an empty second part that is a run-time panic.
\<close>

definition parse_tag_line :: "string \<Rightarrow> string \<Rightarrow> error + string" where
  "parse_tag_line prevLine ifName =
     (let prevLineParts = bytes_Split prevLine ''noifgo:''
      in if length prevLineParts \<noteq> 2 then Inl ErrTagSplit
         else if prevLineParts ! 1 = [] then Inl PanicIndexOutOfRange
         else if hd (prevLineParts ! 1) \<noteq> CHR ''{'' then Inl ErrTagNoOpenBrace
         else let closingCurlyBrIx = bytes_LastIndex (prevLineParts ! 1) ''}''
              in if closingCurlyBrIx = - 1 then Inl ErrTagNoClosingBrace
                 else (case go_slice (prevLineParts ! 1) 1 closingCurlyBrIx of
                         Inl err \<Rightarrow> Inl err
                       | Inr inner \<Rightarrow> keyValue_loop (bytes_Split inner '';'') ifName))"

definition shouldConvertTo :: "filesys \<Rightarrow> string \<Rightarrow> int \<Rightarrow> string \<Rightarrow> error + string" where
  "shouldConvertTo fs filepath row ifName =
     (case ReadFile fs filepath of
        Inl err \<Rightarrow> Inl err
      | Inr b \<Rightarrow> parse_tag_line (prevLine_loop (scanner_lines b) row 1 []) ifName)"

subsection \<open>Paths: \<open>filepath.Dir\<close>, \<open>filepath.Base\<close>, \<open>filepath.Ext\<close>\<close>

text \<open>
  The functions of Go's \<open>path/filepath\<close> that the program calls, for slash-separated
  paths without a volume name. \<open>Clean\<close> drops empty and \<open>.\<close> elements and resolves
  \<open>..\<close> against the element before it.
\<close>

fun join_elems :: "string list \<Rightarrow> string" where
  "join_elems [] = []"
| "join_elems [e] = e"
| "join_elems (e # es) = e @ ''/'' @ join_elems es"

fun clean_elems :: "bool \<Rightarrow> string list \<Rightarrow> string list \<Rightarrow> string list" where
  "clean_elems rooted out [] = out"
| "clean_elems rooted out (e # es) =
     (if e = [] \<or> e = ''.'' then clean_elems rooted out es
      else if e = ''..''
           then (if out \<noteq> [] \<and> last out \<noteq> ''..'' then clean_elems rooted (butlast out) es
                 else if \<not> rooted then clean_elems rooted (out @ [''..'']) es
                 else clean_elems rooted out es)
      else clean_elems rooted (out @ [e]) es)"

definition filepath_Clean :: "string \<Rightarrow> string" where
  "filepath_Clean path =
     (if path = [] then ''.''
      else let rooted = (hd path = CHR ''/'');
               out = (if rooted then ''/'' else []) @
                     join_elems (clean_elems rooted [] (bytes_Split path ''/''))
           in if out = [] then ''.'' else out)"

definition filepath_Dir :: "string \<Rightarrow> string" where
  "filepath_Dir path =
     filepath_Clean (rev (dropWhile (\<lambda>c. c \<noteq> CHR ''/'') (rev path)))"

definition filepath_Base :: "string \<Rightarrow> string" where
  "filepath_Base path =
     (if path = [] then ''.''
      else let stripped = rev (dropWhile (\<lambda>c. c = CHR ''/'') (rev path));
               elem = rev (takeWhile (\<lambda>c. c \<noteq> CHR ''/'') (rev stripped))
           in if elem = [] then ''/'' else elem)"

definition filepath_Ext :: "string \<Rightarrow> string" where
  "filepath_Ext path =
     (let elem = rev (takeWhile (\<lambda>c. c \<noteq> CHR ''/'') (rev path));
          tail = takeWhile (\<lambda>c. c \<noteq> CHR ''.'') (rev elem)
      in if length tail < length elem then CHR ''.'' # rev tail else [])"

definition referencesInSamePkg :: "string \<Rightarrow> string \<Rightarrow> bool" where
  "referencesInSamePkg filepathA filepathB =
     (let pathA = filepath_Dir filepathA;
          pathB = filepath_Dir filepathB
      in pathA = pathB)"

definition pkgFromFilepath :: "string \<Rightarrow> string" where
  "pkgFromFilepath fp = (let path = filepath_Dir fp in filepath_Base path)"

subsection \<open>Edit applier: \<open>renameRefSingle\<close>\<close>

text \<open>
  The first copy loop: bytes of \<open>b\<close> go to the same index of \<open>newb\<close> until index
  \<open>pos\<close> is reached.
\<close>

fun copy_until :: "string \<Rightarrow> int \<Rightarrow> int \<Rightarrow> string \<Rightarrow> error + string" where
  "copy_until [] k pos newb = Inr newb"
| "copy_until (v # rest) k pos newb =
     (if k = pos then Inr newb
      else (case go_set newb k v of
              Inl err \<Rightarrow> Inl err
            | Inr newb' \<Rightarrow> copy_until rest (k + 1) pos newb'))"

text \<open>The other two loops: element \<open>k\<close> of the source goes to index \<open>base + k\<close>.\<close>

fun copy_at :: "string \<Rightarrow> int \<Rightarrow> string \<Rightarrow> error + string" where
  "copy_at [] base newb = Inr newb"
| "copy_at (v # rest) base newb =
     (case go_set newb base v of
        Inl err \<Rightarrow> Inl err
      | Inr newb' \<Rightarrow> copy_at rest (base + 1) newb')"

text \<open>
  The splice on the bytes of the file: what \<open>renameRefSingle\<close> computes between
  reading the file and writing it back.
\<close>

definition splice_bytes :: "string \<Rightarrow> string \<Rightarrow> string \<Rightarrow> int \<Rightarrow> error + string" where
  "splice_bytes b from to pos =
     (let sizeChg = int (length to) - int (length from)
      in if int (length b) + sizeChg < 0 then Inl PanicMakeLen
         else let newb = replicate (nat (int (length b) + sizeChg)) (CHR 0x00)
              in (case copy_until b 0 pos newb of
                    Inl err \<Rightarrow> Inl err
                  | Inr newb1 \<Rightarrow>
                      (case copy_at to pos newb1 of
                         Inl err \<Rightarrow> Inl err
                       | Inr newb2 \<Rightarrow>
                           (case go_slice_from b (pos + int (length from)) of
                              Inl err \<Rightarrow> Inl err
                            | Inr sAfterWord \<Rightarrow>
                                copy_at sAfterWord (pos + int (length to)) newb2))))"

text \<open>
  The text searched for and its position, after the adjustment for a reference in another
  package than the interface.
\<close>

definition qualify_from :: "string \<Rightarrow> int \<Rightarrow> bool \<Rightarrow> string \<Rightarrow> int \<times> string" where
  "qualify_from from pos refAndIfInSamePkg ifPkgName =
     (if \<not> refAndIfInSamePkg
      then (pos - 1 - int (length ifPkgName), ifPkgName @ ''.'' @ from)
      else (pos, from))"

definition renameRefSingle ::
  "filesys \<Rightarrow> string \<Rightarrow> string \<Rightarrow> string \<Rightarrow> int \<Rightarrow> bool \<Rightarrow> string \<Rightarrow> error + filesys" where
  "renameRefSingle fs filepath from to pos refAndIfInSamePkg ifPkgName =
     (case ReadFile fs filepath of
        Inl err \<Rightarrow> Inl err
      | Inr b \<Rightarrow>
          (case qualify_from from pos refAndIfInSamePkg ifPkgName of
             (pos', from') \<Rightarrow>
               (case splice_bytes b from' to pos' of
                  Inl err \<Rightarrow> Inl err
                | Inr newb \<Rightarrow> Inr (fs(filepath \<mapsto> newb)))))"

subsection \<open>Data model\<close>

record reference =
  ref_filepath :: string
  ref_row :: int
  ref_col :: int

record ifImplementation =
  impl_filepath :: string
  impl_name :: string
  impl_row :: int
  impl_col :: int

record taggedInterface =
  if_filepath :: string
  if_name :: string
  if_row :: int
  if_col :: int

record srcFileToBackup =
  filepath :: string
  backedUp :: bool

definition implPrefix :: string where
  "implPrefix = ''NoIFGo''"


subsection \<open>\<open>strconv.Atoi\<close>\<close>

text \<open>
  An optional sign and then decimal digits, at least one. The second component tells
  whether the conversion succeeded; on a syntax error the value is 0, and out of the
  64-bit range it is the nearest bound, as Go returns them together with the error.
\<close>

definition is_digit :: "char \<Rightarrow> bool" where
  "is_digit c = (48 \<le> (of_char c :: nat) \<and> (of_char c :: nat) \<le> 57)"

definition digits_value :: "string \<Rightarrow> int" where
  "digits_value ds = foldl (\<lambda>n c. n * 10 + (int (of_char c) - 48)) 0 ds"

definition Atoi :: "string \<Rightarrow> int \<times> bool" where
  "Atoi s =
     (let neg = (s \<noteq> [] \<and> hd s = CHR ''-'');
          ds = (if s \<noteq> [] \<and> (hd s = CHR ''-'' \<or> hd s = CHR ''+'') then tl s else s)
      in if ds = [] \<or> \<not> list_all is_digit ds then (0, False)
         else let un = digits_value ds
              in if \<not> neg \<and> un \<ge> 2 ^ 63 then (2 ^ 63 - 1, False)
                 else if neg \<and> un > 2 ^ 63 then (- (2 ^ 63), False)
                 else (if neg then - un else un, True))"

subsection \<open>Resolver adapter: \<open>implByIf\<close>, \<open>implRefs\<close>, \<open>ifRefs\<close>\<close>

text \<open>
  The external tools. \<open>guru implements\<close> gives its output or fails; the output of
  \<open>guru referrers\<close> is parsed whether or not the command reported an error;
  \<open>gorename\<close> (\<open>rename.Main\<close>) rewrites files of the tree or fails;
  \<open>goimports\<close> (\<open>imports.Process\<close>) gives the new content of one file or fails;
  \<open>go_build\<close> is the run of the compiler.
  \<open>walk\<close> lists the tree below the root in the order of \<open>filepath.Walk\<close>, each
  entry with its path and whether it is a directory. \<open>copy_fails\<close>,
  \<open>remove_fails\<close> and \<open>rename_fails\<close> tell for which paths the operating system
  refuses the operation although the file is there.
\<close>

record tools =
  guru_implements :: "filesys \<Rightarrow> string \<Rightarrow> int \<Rightarrow> error + string"
  guru_referrers :: "filesys \<Rightarrow> string \<Rightarrow> int \<Rightarrow> string"
  gorename :: "filesys \<Rightarrow> string \<Rightarrow> int \<Rightarrow> string \<Rightarrow> error + filesys"
  goimports :: "filesys \<Rightarrow> string \<Rightarrow> error + string"
  go_build :: "filesys \<Rightarrow> filesys"
  walk :: "filesys \<Rightarrow> (string \<times> bool) list"
  copy_fails :: "string \<Rightarrow> bool"
  remove_fails :: "string \<Rightarrow> bool"
  rename_fails :: "string \<Rightarrow> bool"

definition no_impl :: ifImplementation where
  "no_impl = \<lparr>impl_filepath = [], impl_name = [], impl_row = 0, impl_col = 0\<rparr>"

text \<open>
  The body of the loop of \<open>implByIf\<close> for one line of \<open>guru implements\<close>, after
  the test-file and too-many checks: the new value of \<open>impl\<close> and whether the line was
  parsed to the end (\<open>found = true\<close>). A line given up half-way leaves the fields
  assigned so far in \<open>impl\<close>.
\<close>

definition implByIf_line :: "string \<Rightarrow> ifImplementation \<Rightarrow> ifImplementation \<times> bool" where
  "implByIf_line line impl =
     (let ifImplBytesParts = bytes_Split line '':''
      in if length ifImplBytesParts \<noteq> 3 then (impl, False)
         else let impl1 = no_impl\<lparr>impl_filepath := ifImplBytesParts ! 0\<rparr>;
                  rowColDashParts = bytes_Split (ifImplBytesParts ! 1) ''-''
              in if length rowColDashParts \<noteq> 2 then (impl1, False)
                 else let rowColParts = bytes_Split (rowColDashParts ! 0) ''.''
                      in if length rowColParts \<noteq> 2 then (impl1, False)
                         else let impl2 = impl1\<lparr>impl_row := fst (Atoi (rowColParts ! 0))\<rparr>
                              in if \<not> snd (Atoi (rowColParts ! 0)) then (impl2, False)
                                 else let impl3 = impl2\<lparr>impl_col := fst (Atoi (rowColParts ! 1))\<rparr>
                                      in if \<not> snd (Atoi (rowColParts ! 1)) then (impl3, False)
                                         else let ifImplPos = bytes_LastIndex (ifImplBytesParts ! 2) '' ''
                                              in if ifImplPos = - 1 then (impl3, False)
                                                 else let dirtyImplName =
                                                            filepath_Base (drop (nat (ifImplPos + 1)) (ifImplBytesParts ! 2));
                                                          dirtyImplNameParts = bytes_Split dirtyImplName ''.''
                                                      in (impl3\<lparr>impl_name :=
                                                            (if length dirtyImplNameParts = 1
                                                             then dirtyImplNameParts ! 0
                                                             else dirtyImplNameParts ! 1)\<rparr>, True))"










subsection \<open>Tag scanner: \<open>nextInterfaceToProcess\<close>\<close>

text \<open>
  The loop that finds the interface name in a line starting with \<open>type \<close>: it runs
  from index 5 and yields \<open>ifNameStartIx\<close> and \<open>ifNameEndIx\<close>.
\<close>

fun ifName_loop :: "string \<Rightarrow> nat \<Rightarrow> nat \<Rightarrow> nat \<times> nat" where
  "ifName_loop [] i ifNameStartIx = (ifNameStartIx, 0)"
| "ifName_loop (c # cs) i ifNameStartIx =
     (if c = CHR '' ''
      then (if ifNameStartIx \<noteq> 0 then (ifNameStartIx, i - 1)
            else ifName_loop cs (i + 1) ifNameStartIx)
      else ifName_loop cs (i + 1) (if ifNameStartIx = 0 then i else ifNameStartIx))"

text \<open>
  The line after a marker line: the name of the interface it declares, or nothing when
  the line is not of the form \<open>type Name ... interface\<close>.
\<close>

definition declared_interface :: "string \<Rightarrow> string option" where
  "declared_interface sb =
     (if length sb < 5 then None
      else if take 5 sb \<noteq> ''type '' then None
      else (case ifName_loop (drop 5 sb) 5 0 of
              (ifNameStartIx, ifNameEndIx) \<Rightarrow>
                if ifNameStartIx = 0 \<or> ifNameEndIx = 0 then None
                else if \<not> bytes_Contains (drop (ifNameEndIx + 1) sb) ''interface'' then None
                else Some (take (ifNameEndIx + 1 - ifNameStartIx) (drop ifNameStartIx sb))))"

text \<open>
  The scan of the lines of one file. It stops at the first marked interface of the file
  that is not in \<open>processedInterfaces\<close>.
\<close>

fun scan_file ::
  "string list \<Rightarrow> int \<Rightarrow> bool \<Rightarrow> string \<Rightarrow> string \<Rightarrow> taggedInterface list \<Rightarrow> taggedInterface option" where
  "scan_file [] row found path tag processedInterfaces = None"
| "scan_file (sb # rest) row found path tag processedInterfaces =
     (if bytes_Contains sb tag then scan_file rest (row + 1) True path tag processedInterfaces
      else if \<not> found then scan_file rest (row + 1) False path tag processedInterfaces
      else (case declared_interface sb of
              None \<Rightarrow> scan_file rest (row + 1) False path tag processedInterfaces
            | Some interfaceName \<Rightarrow>
                if \<exists>processedIf \<in> set processedInterfaces.
                     interfaceName = if_name processedIf \<and> path = if_filepath processedIf
                then scan_file rest (row + 1) False path tag processedInterfaces
                else Some \<lparr>if_filepath = path, if_name = interfaceName,
                           if_row = row + 1, if_col = 6\<rparr>))"

text \<open>
  The walk. The function given to \<open>filepath.Walk\<close> returns \<open>nil\<close> in every case,
  also after it has found an interface, so the walk goes on through the rest of the tree:
  an interface found in a later file replaces \<open>taggedIf\<close> and is appended to
  \<open>processedInterfaces\<close> as well.
\<close>

fun walk_loop ::
  "(string \<times> bool) list \<Rightarrow> filesys \<Rightarrow> string \<Rightarrow> taggedInterface option \<Rightarrow> taggedInterface list
     \<Rightarrow> taggedInterface option \<times> taggedInterface list" where
  "walk_loop [] fs tag taggedIf processedInterfaces = (taggedIf, processedInterfaces)"
| "walk_loop ((path, isDir) # rest) fs tag taggedIf processedInterfaces =
     (if isDir then walk_loop rest fs tag taggedIf processedInterfaces
      else if filepath_Ext (filepath_Base path) \<noteq> ''.go''
           then walk_loop rest fs tag taggedIf processedInterfaces
      else let b = (case ReadFile fs path of Inl err \<Rightarrow> [] | Inr b \<Rightarrow> b)
           in (case scan_file (scanner_lines b) 0 False path tag processedInterfaces of
                 None \<Rightarrow> walk_loop rest fs tag taggedIf processedInterfaces
               | Some found \<Rightarrow>
                   walk_loop rest fs tag (Some found) (processedInterfaces @ [found])))"

definition nextInterfaceToProcess ::
  "(string \<times> bool) list \<Rightarrow> filesys \<Rightarrow> taggedInterface list \<Rightarrow> string
     \<Rightarrow> taggedInterface option \<times> taggedInterface list" where
  "nextInterfaceToProcess tree fs processedInterfaces tag =
     walk_loop tree fs tag None processedInterfaces"

definition ifdef_tag :: string where
  "ifdef_tag = ''noifgo:ifdef''"

subsection \<open>Backup and restore\<close>

text \<open>
  What a run does to files, in order: the trace. \<open>EvBackup f\<close> is a finished copy of
  \<open>f\<close> to \<open>f.txt\<close>; \<open>EvRenameImpl f\<close> is the call of \<open>renameRefMany\<close> for
  the implementation declared in \<open>f\<close>; \<open>EvRenameRef f\<close> is a reference rewritten in
  \<open>f\<close> by \<open>renameRefSingle\<close>; \<open>EvFixImports f\<close> is \<open>f\<close> written back by
  \<open>fixImports\<close>. The others are the restoration: a file put back, and the three
  messages that the restoring loop prints.
\<close>

datatype event =
    EvBackup string
  | EvRenameImpl string
  | EvRenameRef string
  | EvFixImports string
  | EvBuild
  | EvRestored string
  | EvBackupNotFound string
  | EvCouldNotRemove string
  | EvCouldNotRename string

definition backup_path :: "string \<Rightarrow> string" where
  "backup_path fp = fp @ ''.txt''"


definition os_Remove :: "tools \<Rightarrow> filesys \<Rightarrow> string \<Rightarrow> error + filesys" where
  "os_Remove t fs name =
     (if fs name = None \<or> remove_fails t name then Inl (IOError name)
      else Inr (fs(name := None)))"

definition os_Rename :: "tools \<Rightarrow> filesys \<Rightarrow> string \<Rightarrow> string \<Rightarrow> error + filesys" where
  "os_Rename t fs oldpath newpath =
     (case fs oldpath of
        None \<Rightarrow> Inl (IOError oldpath)
      | Some b \<Rightarrow>
          if rename_fails t oldpath then Inl (IOError oldpath)
          else Inr ((fs(oldpath := None))(newpath \<mapsto> b)))"


text \<open>
  The restoring loop at the end of \<open>main\<close>: a missing backup is reported and the loop
  goes on (\<open>continue\<close>); a failed remove or rename is reported and \<open>main\<close> returns.
\<close>

fun restore_loop :: "tools \<Rightarrow> srcFileToBackup list \<Rightarrow> filesys \<Rightarrow> filesys \<times> event list" where
  "restore_loop t [] fs = (fs, [])"
| "restore_loop t (backedUpFile # rest) fs =
     (if fs (backup_path (filepath backedUpFile)) = None
      then (case restore_loop t rest fs of
              (fs', evs) \<Rightarrow> (fs', EvBackupNotFound (filepath backedUpFile) # evs))
      else (case os_Remove t fs (filepath backedUpFile) of
              Inl err \<Rightarrow> (fs, [EvCouldNotRemove (filepath backedUpFile)])
            | Inr fs1 \<Rightarrow>
                (case os_Rename t fs1 (backup_path (filepath backedUpFile)) (filepath backedUpFile) of
                   Inl err \<Rightarrow> (fs1, [EvCouldNotRename (filepath backedUpFile)])
                 | Inr fs2 \<Rightarrow>
                     (case restore_loop t rest fs2 of
                        (fs', evs) \<Rightarrow> (fs', EvRestored (filepath backedUpFile) # evs)))))"

text \<open>The two messages of the restoring loop that are followed by \<open>return\<close>.\<close>

fun is_restore_error :: "event \<Rightarrow> bool" where
  "is_restore_error (EvCouldNotRemove f) = True"
| "is_restore_error (EvCouldNotRename f) = True"
| "is_restore_error _ = False"

subsection \<open>Substitution planner and the rewriting loop of \<open>main\<close>\<close>

definition typePrefix_of :: "string \<Rightarrow> string" where
  "typePrefix_of convertTo = (if convertTo = ''p'' then ''*'' else [])"

definition pkgPrefix_of :: "string \<Rightarrow> string \<Rightarrow> string" where
  "pkgPrefix_of refFilepath implFilepath =
     (if referencesInSamePkg refFilepath implFilepath then []
      else pkgFromFilepath implFilepath @ ''.'')"

text \<open>The fourth argument of the call of \<open>renameRefSingle\<close>: the replacement text.\<close>

definition replacement_text :: "string \<Rightarrow> string \<Rightarrow> ifImplementation \<Rightarrow> string" where
  "replacement_text convertTo refFilepath impl =
     typePrefix_of convertTo @ pkgPrefix_of refFilepath (impl_filepath impl)
       @ implPrefix @ impl_name impl"

text \<open>
  The column with which \<open>toPos\<close> is called for a reference: shifted by
  \<open>lastRowGrowth\<close> when the reference before it was in the same file and row. After
  every rewritten reference \<open>lastRowGrowth\<close> is set to \<open>len(typePrefix) + 9\<close>.
\<close>

definition shifted_col :: "string \<Rightarrow> int \<Rightarrow> int \<Rightarrow> reference \<Rightarrow> int" where
  "shifted_col lastRefFilepath lastRefRow lastRowGrowth ifRef =
     (if lastRefFilepath = ref_filepath ifRef \<and> lastRefRow = ref_row ifRef
      then ref_col ifRef + lastRowGrowth
      else ref_col ifRef)"

definition rowGrowth :: "string \<Rightarrow> int" where
  "rowGrowth typePrefix = int (length typePrefix) + 9"

text \<open>
  One reference, the body of the loop: the file system after \<open>renameRefSingle\<close> and
  the new value of \<open>lastRowGrowth\<close>.
\<close>

definition rename_ref ::
  "filesys \<Rightarrow> taggedInterface \<Rightarrow> ifImplementation \<Rightarrow> reference \<Rightarrow> int \<Rightarrow> error + filesys \<times> int" where
  "rename_ref fs taggedIf impl ifRef col =
     (case toPos fs (ref_filepath ifRef) (ref_row ifRef) col of
        Inl err \<Rightarrow> Inl err
      | Inr refPos \<Rightarrow>
          (case shouldConvertTo fs (ref_filepath ifRef) (ref_row ifRef) (if_name taggedIf) of
             Inl err \<Rightarrow> Inl err
           | Inr convertTo \<Rightarrow>
               (case renameRefSingle fs (ref_filepath ifRef) (if_name taggedIf)
                       (replacement_text convertTo (ref_filepath ifRef) impl) refPos
                       (referencesInSamePkg (ref_filepath ifRef) (if_filepath taggedIf))
                       (pkgFromFilepath (if_filepath taggedIf)) of
                  Inl err \<Rightarrow> Inl err
                | Inr fs' \<Rightarrow> Inr (fs', rowGrowth (typePrefix_of convertTo)))))"

text \<open>
  The loop over \<open>ifRefs\<close>: the file system, the references rewritten, and the error
  that made \<open>main\<close> return, if any.
\<close>

fun rename_refs_loop ::
  "reference list \<Rightarrow> taggedInterface \<Rightarrow> ifImplementation \<Rightarrow> string \<Rightarrow> int \<Rightarrow> int \<Rightarrow> filesys
     \<Rightarrow> filesys \<times> event list \<times> error option" where
  "rename_refs_loop [] taggedIf impl lastRefFilepath lastRefRow lastRowGrowth fs = (fs, [], None)"
| "rename_refs_loop (ifRef # rest) taggedIf impl lastRefFilepath lastRefRow lastRowGrowth fs =
     (case rename_ref fs taggedIf impl ifRef
             (shifted_col lastRefFilepath lastRefRow lastRowGrowth ifRef) of
        Inl err \<Rightarrow> (fs, [], Some err)
      | Inr (fs1, growth) \<Rightarrow>
          (case rename_refs_loop rest taggedIf impl (ref_filepath ifRef) (ref_row ifRef) growth fs1 of
             (fs', evs, err) \<Rightarrow> (fs', EvRenameRef (ref_filepath ifRef) # evs, err)))"




subsection \<open>Driver: the loop of \<open>main\<close>\<close>

record run_state =
  fsys :: filesys
  srcFilesToBackup :: "srcFileToBackup list"
  processedInterfaces :: "taggedInterface list"
  trace :: "event list"







subsection \<open>Backup before rewrite: what the trace must show\<close>





subsection \<open>Example environment\<close>

text \<open>
  External tools for the worked examples: \<open>guru implements\<close> prints \<open>impls\<close>,
  \<open>guru referrers\<close> prints \<open>refs\<close>, \<open>gorename\<close> and \<open>goimports\<close> leave the
  files as they are, the compiler touches nothing, the tree is \<open>tree\<close>, and no
  operation on an existing file fails.
\<close>

definition example_tools :: "string \<Rightarrow> string \<Rightarrow> (string \<times> bool) list \<Rightarrow> tools" where
  "example_tools impls refs tree =
     \<lparr>guru_implements = (\<lambda>fs fp pos. Inr impls),
      guru_referrers = (\<lambda>fs fp pos. refs),
      gorename = (\<lambda>fs fp pos to. Inr fs),
      goimports = (\<lambda>fs fp. case fs fp of None \<Rightarrow> Inl (IOError fp) | Some b \<Rightarrow> Inr b),
      go_build = (\<lambda>fs. fs),
      walk = (\<lambda>fs. tree),
      copy_fails = (\<lambda>p. False),
      remove_fails = (\<lambda>p. False),
      rename_fails = (\<lambda>p. False)\<rparr>"

section \<open>Verification\<close>

subsection \<open>Facts about the library model\<close>






subsection \<open>Position translator\<close>















subsection \<open>Tag grammar parser\<close>










subsection \<open>Substitution planner and edit applier\<close>


















subsection \<open>Resolver adapter\<close>


lemma implByIf_line_impl:
  "snd (implByIf_line line impl) \<Longrightarrow> fst (implByIf_line line impl) = fst (implByIf_line line impl')"
  by (simp add: implByIf_line_def Let_def split: if_splits)







subsection \<open>Backup and restore manager\<close>

lemma restore_loop_append:
  "restore_loop t (pre @ rest) fs
     = (case restore_loop t pre fs of
          (fs1, evs1) \<Rightarrow>
            if list_ex is_restore_error evs1 then (fs1, evs1)
            else (case restore_loop t rest fs1 of (fs2, evs2) \<Rightarrow> (fs2, evs1 @ evs2)))"
proof (induction pre arbitrary: fs)
  case Nil
  then show ?case by (simp split: prod.splits)
next
  case (Cons sf pre)
  show ?case
  proof (cases "fs (backup_path (filepath sf))")
    case None
    then show ?thesis using Cons.IH[of fs] by (auto split: prod.splits)
  next
    case (Some y)
    show ?thesis
    proof (cases "os_Remove t fs (filepath sf)")
      case (Inl err)
      then show ?thesis using Some by simp
    next
      case (Inr fs1)
      show ?thesis
      proof (cases "os_Rename t fs1 (backup_path (filepath sf)) (filepath sf)")
        case (Inl err)
        then show ?thesis using Some Inr by simp
      next
        case r: (Inr fs2)
        then show ?thesis using Some Inr Cons.IH[of fs2] by (auto split: prod.splits)
      qed
    qed
  qed
qed

text \<open>
  Claim C2 says that after an I/O error on one file the remaining files are still
  restored. They are not: when the remove of \<open>/w/a.go\<close> fails, the loop prints the
  message and \<open>main\<close> returns; \<open>/w/b.go\<close> keeps its rewritten content and its
  backup stays where it is.
\<close>

theorem restore_loop_stops_counterexample:
  "snd (restore_loop ((example_tools [] [] [])\<lparr>remove_fails := (\<lambda>p. p = ''/w/a.go'')\<rparr>)
          [\<lparr>filepath = ''/w/a.go'', backedUp = True\<rparr>, \<lparr>filepath = ''/w/b.go'', backedUp = True\<rparr>]
          [''/w/x.go'' \<mapsto> ''x2'', ''/w/x.go.txt'' \<mapsto> ''x'', ''/w/a.go'' \<mapsto> ''a2'', ''/w/a.go.txt'' \<mapsto> ''a'', ''/w/b.go'' \<mapsto> ''b2'', ''/w/b.go.txt'' \<mapsto> ''b''])
     = [EvCouldNotRemove ''/w/a.go'']
   \<and> fst (restore_loop ((example_tools [] [] [])\<lparr>remove_fails := (\<lambda>p. p = ''/w/a.go'')\<rparr>)
          [\<lparr>filepath = ''/w/a.go'', backedUp = True\<rparr>, \<lparr>filepath = ''/w/b.go'', backedUp = True\<rparr>]
          [''/w/x.go'' \<mapsto> ''x2'', ''/w/x.go.txt'' \<mapsto> ''x'', ''/w/a.go'' \<mapsto> ''a2'', ''/w/a.go.txt'' \<mapsto> ''a'', ''/w/b.go'' \<mapsto> ''b2'', ''/w/b.go.txt'' \<mapsto> ''b'']) ''/w/b.go'' = Some ''b2''
   \<and> fst (restore_loop ((example_tools [] [] [])\<lparr>remove_fails := (\<lambda>p. p = ''/w/a.go'')\<rparr>)
          [\<lparr>filepath = ''/w/a.go'', backedUp = True\<rparr>, \<lparr>filepath = ''/w/b.go'', backedUp = True\<rparr>]
          [''/w/x.go'' \<mapsto> ''x2'', ''/w/x.go.txt'' \<mapsto> ''x'', ''/w/a.go'' \<mapsto> ''a2'', ''/w/a.go.txt'' \<mapsto> ''a'', ''/w/b.go'' \<mapsto> ''b2'', ''/w/b.go.txt'' \<mapsto> ''b'']) ''/w/b.go.txt'' = Some ''b''"
  by code_simp

text \<open>
  Claim C2, as the code has it. When the restoring loop reaches a tracked file without an
  I/O error before it: if the backup of the file does not exist, the omission is reported
  and the loop goes on with the remaining files; if the remove of the rewritten original
  or the rename of the backup fails, the failure is reported and the restoration stops
  there, so the remaining files are not restored.
\<close>

theorem restore_loop_continues_or_stops:
  assumes "restore_loop t pre fs = (fs1, evs1)" and "\<not> list_ex is_restore_error evs1"
  shows "(fs1 (backup_path (filepath sf)) = None
            \<longrightarrow> restore_loop t (pre @ sf # post) fs
                  = (fst (restore_loop t post fs1),
                     evs1 @ EvBackupNotFound (filepath sf) # snd (restore_loop t post fs1)))
       \<and> (fs1 (backup_path (filepath sf)) \<noteq> None \<and> os_Remove t fs1 (filepath sf) = Inl err
            \<longrightarrow> restore_loop t (pre @ sf # post) fs = (fs1, evs1 @ [EvCouldNotRemove (filepath sf)]))
       \<and> (fs1 (backup_path (filepath sf)) \<noteq> None \<and> os_Remove t fs1 (filepath sf) = Inr fs2
            \<and> os_Rename t fs2 (backup_path (filepath sf)) (filepath sf) = Inl err
            \<longrightarrow> restore_loop t (pre @ sf # post) fs = (fs2, evs1 @ [EvCouldNotRename (filepath sf)]))"
  using assms by (simp add: restore_loop_append[of t pre "sf # post" fs] split: prod.splits)

theorem restore_loop_continues_or_stops_witness:
  "restore_loop (example_tools [] [] []) ([\<lparr>filepath = ''/w/x.go'', backedUp = True\<rparr>] @ \<lparr>filepath = ''/w/a.go'', backedUp = True\<rparr> # [\<lparr>filepath = ''/w/b.go'', backedUp = True\<rparr>])
      [''/w/x.go'' \<mapsto> ''x2'', ''/w/x.go.txt'' \<mapsto> ''x'', ''/w/a.go'' \<mapsto> ''a2'', ''/w/b.go'' \<mapsto> ''b2'', ''/w/b.go.txt'' \<mapsto> ''b'']
     = (fst (restore_loop (example_tools [] [] []) [\<lparr>filepath = ''/w/b.go'', backedUp = True\<rparr>]
               (fst (restore_loop (example_tools [] [] []) [\<lparr>filepath = ''/w/x.go'', backedUp = True\<rparr>]
                  [''/w/x.go'' \<mapsto> ''x2'', ''/w/x.go.txt'' \<mapsto> ''x'', ''/w/a.go'' \<mapsto> ''a2'', ''/w/b.go'' \<mapsto> ''b2'', ''/w/b.go.txt'' \<mapsto> ''b'']))),
        snd (restore_loop (example_tools [] [] []) [\<lparr>filepath = ''/w/x.go'', backedUp = True\<rparr>]
               [''/w/x.go'' \<mapsto> ''x2'', ''/w/x.go.txt'' \<mapsto> ''x'', ''/w/a.go'' \<mapsto> ''a2'', ''/w/b.go'' \<mapsto> ''b2'', ''/w/b.go.txt'' \<mapsto> ''b''])
          @ EvBackupNotFound (filepath \<lparr>filepath = ''/w/a.go'', backedUp = True\<rparr>)
          # snd (restore_loop (example_tools [] [] []) [\<lparr>filepath = ''/w/b.go'', backedUp = True\<rparr>]
               (fst (restore_loop (example_tools [] [] []) [\<lparr>filepath = ''/w/x.go'', backedUp = True\<rparr>]
                  [''/w/x.go'' \<mapsto> ''x2'', ''/w/x.go.txt'' \<mapsto> ''x'', ''/w/a.go'' \<mapsto> ''a2'', ''/w/b.go'' \<mapsto> ''b2'', ''/w/b.go.txt'' \<mapsto> ''b'']))))
   \<and> restore_loop ((example_tools [] [] [])\<lparr>remove_fails := (\<lambda>p. p = ''/w/a.go'')\<rparr>) ([\<lparr>filepath = ''/w/x.go'', backedUp = True\<rparr>] @ \<lparr>filepath = ''/w/a.go'', backedUp = True\<rparr> # [\<lparr>filepath = ''/w/b.go'', backedUp = True\<rparr>])
      [''/w/x.go'' \<mapsto> ''x2'', ''/w/x.go.txt'' \<mapsto> ''x'', ''/w/a.go'' \<mapsto> ''a2'', ''/w/a.go.txt'' \<mapsto> ''a'', ''/w/b.go'' \<mapsto> ''b2'', ''/w/b.go.txt'' \<mapsto> ''b'']
     = (fst (restore_loop ((example_tools [] [] [])\<lparr>remove_fails := (\<lambda>p. p = ''/w/a.go'')\<rparr>) [\<lparr>filepath = ''/w/x.go'', backedUp = True\<rparr>]
               [''/w/x.go'' \<mapsto> ''x2'', ''/w/x.go.txt'' \<mapsto> ''x'', ''/w/a.go'' \<mapsto> ''a2'', ''/w/a.go.txt'' \<mapsto> ''a'', ''/w/b.go'' \<mapsto> ''b2'', ''/w/b.go.txt'' \<mapsto> ''b'']),
        snd (restore_loop ((example_tools [] [] [])\<lparr>remove_fails := (\<lambda>p. p = ''/w/a.go'')\<rparr>) [\<lparr>filepath = ''/w/x.go'', backedUp = True\<rparr>]
               [''/w/x.go'' \<mapsto> ''x2'', ''/w/x.go.txt'' \<mapsto> ''x'', ''/w/a.go'' \<mapsto> ''a2'', ''/w/a.go.txt'' \<mapsto> ''a'', ''/w/b.go'' \<mapsto> ''b2'', ''/w/b.go.txt'' \<mapsto> ''b''])
          @ [EvCouldNotRemove (filepath \<lparr>filepath = ''/w/a.go'', backedUp = True\<rparr>)])"
proof -
  let ?t = "(example_tools [] [] [])"
  let ?tf = "((example_tools [] [] [])\<lparr>remove_fails := (\<lambda>p. p = ''/w/a.go'')\<rparr>)"
  let ?fsm = "[''/w/x.go'' \<mapsto> ''x2'', ''/w/x.go.txt'' \<mapsto> ''x'', ''/w/a.go'' \<mapsto> ''a2'', ''/w/b.go'' \<mapsto> ''b2'', ''/w/b.go.txt'' \<mapsto> ''b'']"
  let ?fs = "[''/w/x.go'' \<mapsto> ''x2'', ''/w/x.go.txt'' \<mapsto> ''x'', ''/w/a.go'' \<mapsto> ''a2'', ''/w/a.go.txt'' \<mapsto> ''a'', ''/w/b.go'' \<mapsto> ''b2'', ''/w/b.go.txt'' \<mapsto> ''b'']"
  let ?x = "\<lparr>filepath = ''/w/x.go'', backedUp = True\<rparr>"
  let ?a = "\<lparr>filepath = ''/w/a.go'', backedUp = True\<rparr>"
  let ?b = "\<lparr>filepath = ''/w/b.go'', backedUp = True\<rparr>"
  have p1: "restore_loop ?t [?x] ?fsm = (fst (restore_loop ?t [?x] ?fsm), snd (restore_loop ?t [?x] ?fsm))"
    by simp
  have n1: "\<not> list_ex is_restore_error (snd (restore_loop ?t [?x] ?fsm))" by code_simp
  have m1: "fst (restore_loop ?t [?x] ?fsm) (backup_path (filepath ?a)) = None" by code_simp
  have c1: "restore_loop ?t ([?x] @ ?a # [?b]) ?fsm
     = (fst (restore_loop ?t [?b] (fst (restore_loop ?t [?x] ?fsm))),
        snd (restore_loop ?t [?x] ?fsm) @ EvBackupNotFound (filepath ?a)
          # snd (restore_loop ?t [?b] (fst (restore_loop ?t [?x] ?fsm))))"
    using restore_loop_continues_or_stops[OF p1 n1, where sf = ?a and post = "[?b]"] m1 by blast
  have p2: "restore_loop ?tf [?x] ?fs = (fst (restore_loop ?tf [?x] ?fs), snd (restore_loop ?tf [?x] ?fs))"
    by simp
  have n2: "\<not> list_ex is_restore_error (snd (restore_loop ?tf [?x] ?fs))" by code_simp
  have m2: "fst (restore_loop ?tf [?x] ?fs) (backup_path (filepath ?a)) \<noteq> None" by code_simp
  have r2: "os_Remove ?tf (fst (restore_loop ?tf [?x] ?fs)) (filepath ?a) = Inl (IOError ''/w/a.go'')"
    by (simp add: os_Remove_def example_tools_def)
  have c2: "restore_loop ?tf ([?x] @ ?a # [?b]) ?fs
     = (fst (restore_loop ?tf [?x] ?fs), snd (restore_loop ?tf [?x] ?fs) @ [EvCouldNotRemove (filepath ?a)])"
    using restore_loop_continues_or_stops[OF p2 n2, where sf = ?a and err = "IOError ''/w/a.go''" and post = "[?b]"] m2 r2 by blast
  show ?thesis using c1 c2 by (intro conjI)
qed

subsection \<open>Tag scanner\<close>

text \<open>
  What the scanner does keep: an interface it returns was not in the processed set it
  was given, and it is in the set it gives back, so no pair of file and name is ever
  returned twice.
\<close>

lemma scan_file_fresh:
  "scan_file ls row found path tag ps = Some t \<Longrightarrow>
   if_filepath t = path \<and> \<not> (\<exists>p\<in>set ps. if_name t = if_name p \<and> path = if_filepath p)"
  by (induction ls row found path tag ps rule: scan_file.induct)
     (auto split: if_splits option.splits)

lemma walk_loop_fresh:
  "walk_loop es fs tag cur ps = (res, ps') \<Longrightarrow>
   (res = cur \<and> ps' = ps)
   \<or> (\<exists>t. res = Some t \<and> t \<in> set ps'
          \<and> \<not> (\<exists>p\<in>set ps. if_name t = if_name p \<and> if_filepath t = if_filepath p))"
proof (induction es arbitrary: cur ps)
  case Nil
  then show ?case by simp
next
  case (Cons entry es)
  obtain path isDir where entry: "entry = (path, isDir)" by (cases entry)
  let ?b = "case ReadFile fs path of Inl err \<Rightarrow> [] | Inr b \<Rightarrow> b"
  show ?case
  proof (cases "isDir \<or> filepath_Ext (filepath_Base path) \<noteq> ''.go''
                 \<or> scan_file (scanner_lines ?b) 0 False path tag ps = None")
    case True
    with Cons.prems entry have "walk_loop es fs tag cur ps = (res, ps')"
      by (auto simp: Let_def split: if_splits)
    from Cons.IH[OF this] show ?thesis .
  next
    case False
    then obtain found where sf: "scan_file (scanner_lines ?b) 0 False path tag ps = Some found"
      by auto
    with Cons.prems entry False have w: "walk_loop es fs tag (Some found) (ps @ [found]) = (res, ps')"
      by (auto simp: Let_def)
    from scan_file_fresh[OF sf]
    have fr: "\<not> (\<exists>p\<in>set ps. if_name found = if_name p \<and> if_filepath found = if_filepath p)"
      by auto
    from Cons.IH[OF w] show ?thesis
    proof
      assume "res = Some found \<and> ps' = ps @ [found]"
      with fr show ?thesis by auto
    next
      assume "\<exists>t. res = Some t \<and> t \<in> set ps'
                \<and> \<not> (\<exists>p\<in>set (ps @ [found]). if_name t = if_name p \<and> if_filepath t = if_filepath p)"
      then show ?thesis by auto
    qed
  qed
qed

lemma nextInterfaceToProcess_fresh:
  assumes "nextInterfaceToProcess tree fs ps tag = (Some t, ps')"
  shows "t \<in> set ps' \<and> \<not> (\<exists>p\<in>set ps. if_name t = if_name p \<and> if_filepath t = if_filepath p)"
  using walk_loop_fresh[of tree fs tag None ps "Some t" ps'] assms
  by (auto simp: nextInterfaceToProcess_def)

text \<open>
  Claim C9 on a tree of two files with one marked interface each. The first call of the
  scanner returns the interface of the second file and puts both interfaces into the
  processed set; the second call returns nothing. The interface of the first file is
  never returned, and the loop of the driver ends after one round, not two.
\<close>

theorem nextInterfaceToProcess_loses_interface:
  "nextInterfaceToProcess [(''/w'', True), (''/w/a.go'', False), (''/w/b.go'', False)]
     [''/w/a.go'' \<mapsto> ''package w'' @ [NL] @ ''//noifgo:ifdef'' @ [NL] @ ''type Singer interface {'' @ [NL] @ ''}'' @ [NL],
      ''/w/b.go'' \<mapsto> ''package w'' @ [NL] @ ''//noifgo:ifdef'' @ [NL] @ ''type Dancer interface {'' @ [NL] @ ''}'' @ [NL]]
     [] ifdef_tag
   = (Some \<lparr>if_filepath = ''/w/b.go'', if_name = ''Dancer'', if_row = 3, if_col = 6\<rparr>,
      [\<lparr>if_filepath = ''/w/a.go'', if_name = ''Singer'', if_row = 3, if_col = 6\<rparr>,
       \<lparr>if_filepath = ''/w/b.go'', if_name = ''Dancer'', if_row = 3, if_col = 6\<rparr>])
   \<and> nextInterfaceToProcess [(''/w'', True), (''/w/a.go'', False), (''/w/b.go'', False)]
     [''/w/a.go'' \<mapsto> ''package w'' @ [NL] @ ''//noifgo:ifdef'' @ [NL] @ ''type Singer interface {'' @ [NL] @ ''}'' @ [NL],
      ''/w/b.go'' \<mapsto> ''package w'' @ [NL] @ ''//noifgo:ifdef'' @ [NL] @ ''type Dancer interface {'' @ [NL] @ ''}'' @ [NL]]
     [\<lparr>if_filepath = ''/w/a.go'', if_name = ''Singer'', if_row = 3, if_col = 6\<rparr>,
      \<lparr>if_filepath = ''/w/b.go'', if_name = ''Dancer'', if_row = 3, if_col = 6\<rparr>] ifdef_tag
   = (None,
      [\<lparr>if_filepath = ''/w/a.go'', if_name = ''Singer'', if_row = 3, if_col = 6\<rparr>,
       \<lparr>if_filepath = ''/w/b.go'', if_name = ''Dancer'', if_row = 3, if_col = 6\<rparr>])"
  by code_simp

subsection \<open>Offset correction in the rewriting loop\<close>

text \<open>
  Claim C3 on its own example: two references in row 3 at columns 10 and 30, each
  rewritten from \<open>Adder\<close> to \<open>NoIFGoadder\<close>, 6 bytes longer. The loop shifts the
  second column by \<open>len(typePrefix) + 9\<close>, to 39 and not to 36, and the second edit lands
  three bytes to the right of the second \<open>Adder\<close>.
\<close>

theorem rename_refs_loop_second_column:
  "shifted_col ''/w/lib/use.go'' 3 (rowGrowth (typePrefix_of ''v''))
     \<lparr>ref_filepath = ''/w/lib/use.go'', ref_row = 3, ref_col = 30\<rparr> = 39
   \<and> (case rename_refs_loop
            [\<lparr>ref_filepath = ''/w/lib/use.go'', ref_row = 3, ref_col = 10\<rparr>,
             \<lparr>ref_filepath = ''/w/lib/use.go'', ref_row = 3, ref_col = 30\<rparr>]
            \<lparr>if_filepath = ''/w/lib/if.go'', if_name = ''Adder'', if_row = 4, if_col = 6\<rparr>
            \<lparr>impl_filepath = ''/w/lib/impl.go'', impl_name = ''adder'', impl_row = 8, impl_col = 6\<rparr>
            [] 0 0
            [''/w/lib/use.go'' \<mapsto> ''package lib'' @ [NL] @ ''//noifgo:{Adder,v}'' @ [NL] @ ''func f(a Adder, bbbb int, dd Adder) {}'' @ [NL]]
       of (fs', evs, err) \<Rightarrow> (fs' ''/w/lib/use.go'', evs, err))
     = (Some (''package lib'' @ [NL] @ ''//noifgo:{Adder,v}'' @ [NL]
                @ ''func f(a NoIFGoadder, bbbb int, dd AddNoIFGoadder}'' @ [NL]),
        [EvRenameRef ''/w/lib/use.go'', EvRenameRef ''/w/lib/use.go''], None)"
  by code_simp

subsection \<open>Driver: backup before rewrite\<close>
























end
